theory Spec2Isabelle
  imports Main
begin

section \<open>Data model of backend/main.py\<close>

text \<open>
  An \<open>HTTPException\<close> raised by a handler or by one of its dependencies is the left
  summand of the handler's result; the status code and the detail string are the ones
  of the source.
\<close>

datatype http_exception = HTTPException (status_code: nat) (detail: string)

text \<open>
  Python dictionaries keep insertion order (\<open>list(files_db.values())\<close> depends on it),
  so a dictionary is an association list with distinct keys: assigning to a key that is
  present replaces its value in place, assigning to a new key appends.
\<close>

type_synonym ('k, 'v) dict = "('k \<times> 'v) list"

definition dict_get :: "('k, 'v) dict \<Rightarrow> 'k \<Rightarrow> 'v option" where
  "dict_get d k = map_of d k"

definition dict_contains :: "('k, 'v) dict \<Rightarrow> 'k \<Rightarrow> bool" where
  "dict_contains d k = (case map_of d k of None \<Rightarrow> False | Some _ \<Rightarrow> True)"

fun dict_set :: "('k, 'v) dict \<Rightarrow> 'k \<Rightarrow> 'v \<Rightarrow> ('k, 'v) dict" where
  "dict_set [] k v = [(k, v)]"
| "dict_set ((k', v') # d) k v =
     (if k' = k then (k, v) # d else (k', v') # dict_set d k v)"

definition dict_values :: "('k, 'v) dict \<Rightarrow> 'v list" where
  "dict_values d = map snd d"

text \<open>Class \<open>UserInDB\<close> (\<open>User\<close> plus \<open>hashed_password\<close>).\<close>

record user_in_db =
  username :: string
  email :: string
  full_name :: "string option"
  disabled :: "bool option"
  user_type :: string
  hashed_password :: string

text \<open>
  Instants are whole seconds of UTC time (\<open>datetime.utcnow()\<close> read as an integer),
  a \<open>timedelta\<close> is a number of seconds.
\<close>

type_synonym instant = int

definition timedelta_minutes :: "int \<Rightarrow> int" where
  "timedelta_minutes m = 60 * m"

text \<open>The entries of \<open>files_db\<close> and of \<open>download_tokens_db\<close>.\<close>

record file_info =
  file_id :: string
  filename :: string
  uploaded_by :: string
  upload_date :: instant
  file_path :: string

text \<open>
  The source stores \<open>expires\<close> as the string rendering of the instant; the model keeps
  the instant itself.
\<close>

record download_grant =
  grant_file_id :: string
  grant_user_id :: string
  grant_expires :: instant

section \<open>File type validation\<close>

text \<open>
  \<open>str.rfind\<close> for a one-character needle: the index of its last occurrence,
  \<open>-1\<close> when there is none.
\<close>

fun rfind_from :: "string \<Rightarrow> char \<Rightarrow> int \<Rightarrow> int \<Rightarrow> int" where
  "rfind_from [] c i found = found"
| "rfind_from (x # xs) c i found = rfind_from xs c (i + 1) (if x = c then i else found)"

definition rfind :: "string \<Rightarrow> char \<Rightarrow> int" where
  "rfind p c = rfind_from p c 0 (- 1)"

text \<open>
  The loop of \<open>genericpath._splitext\<close> that skips the leading dots of the last path
  component: it returns from inside at the first character that is not a dot, and
  falls through (\<open>None\<close>) when every character before the last dot is a dot.
\<close>

function skip_leading_dots :: "string \<Rightarrow> int \<Rightarrow> int \<Rightarrow> (string \<times> string) option" where
  "skip_leading_dots p filenameIndex dotIndex =
     (if filenameIndex < dotIndex then
        (if take 1 (drop (nat filenameIndex) p) \<noteq> ''.''
         then Some (take (nat dotIndex) p, drop (nat dotIndex) p)
         else skip_leading_dots p (filenameIndex + 1) dotIndex)
      else None)"
  by pat_completeness auto
termination
  by (relation "measure (\<lambda>(p, filenameIndex, dotIndex). nat (dotIndex - filenameIndex))") auto

declare skip_leading_dots.simps [simp del]

text \<open>\<open>posixpath.splitext\<close>: separator \<open>/\<close>, no alternative separator, extension separator \<open>.\<close>.\<close>

definition splitext :: "string \<Rightarrow> string \<times> string" where
  "splitext p =
     (let sepIndex = rfind p CHR ''/'';
          dotIndex = rfind p CHR ''.''
      in if dotIndex > sepIndex then
           (case skip_leading_dots p (sepIndex + 1) dotIndex of
              Some r \<Rightarrow> r
            | None \<Rightarrow> (p, []))
         else (p, []))"

text \<open>
  \<open>str.lower\<close> on the ASCII letters. The three allowed extensions are ASCII, and no
  character outside \<open>A\<close>..\<open>Z\<close> is lowered to one of their letters.
\<close>

definition lower_char :: "char \<Rightarrow> char" where
  "lower_char c =
     (case map_of (zip ''ABCDEFGHIJKLMNOPQRSTUVWXYZ'' ''abcdefghijklmnopqrstuvwxyz'') c of
        Some l \<Rightarrow> l
      | None \<Rightarrow> c)"

definition lower :: "string \<Rightarrow> string" where
  "lower s = map lower_char s"

definition allowed_extensions :: "string set" where
  "allowed_extensions = {''.pptx'', ''.docx'', ''.xlsx''}"

definition validate_file_type :: "string \<Rightarrow> http_exception + unit" where
  "validate_file_type fname =
     (let ext = lower (snd (splitext fname))
      in if ext \<notin> allowed_extensions
         then Inl (HTTPException 400 ''Only .pptx, .docx, .xlsx files are allowed'')
         else Inr ())"

section \<open>Token service\<close>

text \<open>
  The payload of a bearer token: the \<open>sub\<close> and \<open>user_type\<close> entries that \<open>login\<close>
  puts in and \<open>get_current_user\<close> reads with \<open>payload.get\<close> (\<open>None\<close> when the entry
  is missing), and the \<open>exp\<close> entry that \<open>create_access_token\<close> adds.
\<close>

record claims =
  claim_sub :: "string option"
  claim_user_type :: "string option"
  claim_exp :: "instant option"

text \<open>
  A bearer token is either a payload together with the key its signature was computed
  with, or a string that does not parse as a token.
\<close>

datatype bearer_token = Signed claims string | Unparsable

datatype jwt_error = BadSignature | Malformed | Expired

text \<open>
  Modelled from the spec: \<open>jwt.encode\<close> and \<open>jwt.decode\<close> belong to the JOSE library,
  whose code is not part of the repository. The model follows section 4.3 of the
  specification: \<open>issue\<close> signs the claims with the process-wide secret key; \<open>verify\<close>
  fails with \<open>Malformed\<close> if the token cannot be parsed, with \<open>BadSignature\<close> if the
  signature does not match the key, with \<open>Expired\<close> if the current time is at or past
  \<open>expires_at\<close>, and returns the claims otherwise. A payload without an expiry is not a
  token of the specification and counts as malformed. All three failures are the
  \<open>JWTError\<close> that \<open>get_current_user\<close> catches.
\<close>

definition jwt_encode :: "claims \<Rightarrow> string \<Rightarrow> bearer_token" where
  "jwt_encode to_encode key = Signed to_encode key"

definition jwt_decode :: "instant \<Rightarrow> bearer_token \<Rightarrow> string \<Rightarrow> jwt_error + claims" where
  "jwt_decode now token key =
     (case token of
        Unparsable \<Rightarrow> Inl Malformed
      | Signed payload k \<Rightarrow>
          if k \<noteq> key then Inl BadSignature
          else (case claim_exp payload of
                  None \<Rightarrow> Inl Malformed
                | Some expires_at \<Rightarrow>
                    if now \<ge> expires_at then Inl Expired else Inr payload))"

section \<open>Process state and configuration\<close>

definition ACCESS_TOKEN_EXPIRE_MINUTES :: int where
  "ACCESS_TOKEN_EXPIRE_MINUTES = 30"

definition FILE_STORAGE :: string where
  "FILE_STORAGE = ''uploaded_files''"

text \<open>
  The module-level globals: the secret key drawn at start-up and the three dictionaries.
  Every handler takes the state and the clock reading \<open>now\<close> as arguments; a handler that
  assigns to a dictionary returns the new state.
\<close>

record state =
  SECRET_KEY :: string
  fake_users_db :: "(string, user_in_db) dict"
  files_db :: "(string, file_info) dict"
  download_tokens_db :: "(string, download_grant) dict"

section \<open>Utility functions\<close>

text \<open>
  \<open>pwd_context.verify\<close> is the password library's function; it is the parameter
  \<open>pwd_verify\<close> of the functions that call it.
\<close>

definition verify_password :: "(string \<Rightarrow> string \<Rightarrow> bool) \<Rightarrow> string \<Rightarrow> string \<Rightarrow> bool" where
  "verify_password pwd_verify plain_password hashed = pwd_verify plain_password hashed"

definition get_user :: "(string, user_in_db) dict \<Rightarrow> string \<Rightarrow> user_in_db option" where
  "get_user db name = (if dict_contains db name then dict_get db name else None)"

definition authenticate_user ::
  "(string \<Rightarrow> string \<Rightarrow> bool) \<Rightarrow> (string, user_in_db) dict \<Rightarrow> string \<Rightarrow> string \<Rightarrow> user_in_db option"
where
  "authenticate_user pwd_verify fake_db name password =
     (case get_user fake_db name of
        None \<Rightarrow> None
      | Some user \<Rightarrow>
          if \<not> verify_password pwd_verify password (hashed_password user) then None
          else Some user)"

text \<open>
  \<open>if expires_delta:\<close> is false for \<open>None\<close> and for the zero \<open>timedelta\<close>; both take the
  15 minute default.
\<close>

definition create_access_token :: "string \<Rightarrow> instant \<Rightarrow> claims \<Rightarrow> int option \<Rightarrow> bearer_token" where
  "create_access_token key now data expires_delta =
     (let expire = (case expires_delta of
                      Some d \<Rightarrow> if d \<noteq> 0 then now + d else now + timedelta_minutes 15
                    | None \<Rightarrow> now + timedelta_minutes 15);
          to_encode = data\<lparr>claim_exp := Some expire\<rparr>
      in jwt_encode to_encode key)"

definition credentials_exception :: http_exception where
  "credentials_exception = HTTPException 401 ''Could not validate credentials''"

definition get_current_user :: "state \<Rightarrow> instant \<Rightarrow> bearer_token \<Rightarrow> http_exception + user_in_db" where
  "get_current_user s now token =
     (case jwt_decode now token (SECRET_KEY s) of
        Inl _ \<Rightarrow> Inl credentials_exception
      | Inr payload \<Rightarrow>
          (case claim_sub payload of
             None \<Rightarrow> Inl credentials_exception
           | Some name \<Rightarrow>
               (case claim_user_type payload of
                  None \<Rightarrow> Inl credentials_exception
                | Some token_user_type \<Rightarrow>
                    (case get_user (fake_users_db s) name of
                       None \<Rightarrow> Inl credentials_exception
                     | Some user \<Rightarrow> Inr user))))"

definition get_current_ops_user :: "state \<Rightarrow> instant \<Rightarrow> bearer_token \<Rightarrow> http_exception + user_in_db" where
  "get_current_ops_user s now token =
     (case get_current_user s now token of
        Inl e \<Rightarrow> Inl e
      | Inr current_user \<Rightarrow>
          if user_type current_user \<noteq> ''ops''
          then Inl (HTTPException 403 ''Only operation users can perform this action'')
          else Inr current_user)"

definition get_current_client_user :: "state \<Rightarrow> instant \<Rightarrow> bearer_token \<Rightarrow> http_exception + user_in_db" where
  "get_current_client_user s now token =
     (case get_current_user s now token of
        Inl e \<Rightarrow> Inl e
      | Inr current_user \<Rightarrow>
          if user_type current_user \<noteq> ''client''
          then Inl (HTTPException 403 ''Only client users can perform this action'')
          else Inr current_user)"

section \<open>Routes\<close>

record token_response =
  access_token :: bearer_token
  token_type :: string

definition login ::
  "(string \<Rightarrow> string \<Rightarrow> bool) \<Rightarrow> state \<Rightarrow> instant \<Rightarrow> string \<Rightarrow> string \<Rightarrow> http_exception + token_response"
where
  "login pwd_verify s now form_username form_password =
     (case authenticate_user pwd_verify (fake_users_db s) form_username form_password of
        None \<Rightarrow> Inl (HTTPException 401 ''Incorrect username or password'')
      | Some user \<Rightarrow>
          (let access_token_expires = timedelta_minutes ACCESS_TOKEN_EXPIRE_MINUTES;
               tok = create_access_token (SECRET_KEY s) now
                       \<lparr>claim_sub = Some (username user),
                        claim_user_type = Some (user_type user),
                        claim_exp = None\<rparr>
                       (Some access_token_expires)
           in Inr \<lparr>access_token = tok, token_type = ''bearer''\<rparr>))"

text \<open>
  \<open>upload_file\<close>: \<open>new_id\<close> is the value of \<open>str(uuid.uuid4())\<close> drawn by the call. Writing
  the bytes to \<open>file_path\<close> belongs to the storage layer and is left out.
\<close>

record upload_response =
  upload_message :: string
  upload_file_id :: string

definition upload_file ::
  "state \<Rightarrow> instant \<Rightarrow> string \<Rightarrow> bearer_token \<Rightarrow> string \<Rightarrow> http_exception + upload_response \<times> state"
where
  "upload_file s now new_id token fname =
     (case get_current_ops_user s now token of
        Inl e \<Rightarrow> Inl e
      | Inr current_user \<Rightarrow>
          (case validate_file_type fname of
             Inl e \<Rightarrow> Inl e
           | Inr _ \<Rightarrow>
               (let info = \<lparr>file_id = new_id,
                            filename = fname,
                            uploaded_by = username current_user,
                            upload_date = now,
                            file_path = FILE_STORAGE @ ''/'' @ new_id\<rparr>
                in Inr (\<lparr>upload_message = ''File uploaded successfully'',
                          upload_file_id = new_id\<rparr>,
                        s\<lparr>files_db := dict_set (files_db s) new_id info\<rparr>))))"

definition list_files :: "state \<Rightarrow> instant \<Rightarrow> bearer_token \<Rightarrow> http_exception + file_info list" where
  "list_files s now token =
     (case get_current_client_user s now token of
        Inl e \<Rightarrow> Inl e
      | Inr current_user \<Rightarrow> Inr (dict_values (files_db s)))"

text \<open>\<open>get_download_link\<close>: \<open>new_token\<close> is the value of \<open>str(uuid.uuid4())\<close> drawn by the call.\<close>

record link_response =
  download_link :: string
  link_message :: string

definition get_download_link ::
  "state \<Rightarrow> instant \<Rightarrow> string \<Rightarrow> bearer_token \<Rightarrow> string \<Rightarrow> http_exception + link_response \<times> state"
where
  "get_download_link s now new_token token fid =
     (case get_current_client_user s now token of
        Inl e \<Rightarrow> Inl e
      | Inr current_user \<Rightarrow>
          if \<not> dict_contains (files_db s) fid
          then Inl (HTTPException 404 ''File not found'')
          else Inr (\<lparr>download_link = ''/download-file/'' @ new_token,
                     link_message = ''success''\<rparr>,
                    s\<lparr>download_tokens_db :=
                        dict_set (download_tokens_db s) new_token
                          \<lparr>grant_file_id = fid,
                           grant_user_id = username current_user,
                           grant_expires = now + timedelta_minutes 30\<rparr>\<rparr>))"

text \<open>
  \<open>download_file\<close> takes the download token only: it has no bearer-token dependency and
  does not read the clock. It returns the state it was given.
\<close>

datatype file_response = FileResponse (path: string) (response_filename: string) (media_type: string)

definition download_file :: "state \<Rightarrow> string \<Rightarrow> http_exception + file_response \<times> state" where
  "download_file s token =
     (case dict_get (download_tokens_db s) token of
        None \<Rightarrow> Inl (HTTPException 404 ''Invalid download link'')
      | Some grant \<Rightarrow>
          (case dict_get (files_db s) (grant_file_id grant) of
             None \<Rightarrow> Inl (HTTPException 404 ''File not found'')
           | Some info \<Rightarrow>
               Inr (FileResponse (file_path info) (filename info) ''application/octet-stream'', s)))"

section \<open>Worked states\<close>

text \<open>
  The start-up state of the source: the two accounts of \<open>fake_users_db\<close>, no files and no
  download tokens. \<open>pwd_hash\<close> stands for \<open>pwd_context.hash\<close>.
\<close>

definition ops_record :: "(string \<Rightarrow> string) \<Rightarrow> user_in_db" where
  "ops_record pwd_hash =
     \<lparr>username = ''opsuser'', email = ''ops@example.com'',
      full_name = Some ''Operation User'', disabled = Some False,
      user_type = ''ops'', hashed_password = pwd_hash ''secret''\<rparr>"

definition client_record :: "(string \<Rightarrow> string) \<Rightarrow> user_in_db" where
  "client_record pwd_hash =
     \<lparr>username = ''clientuser'', email = ''client@example.com'',
      full_name = Some ''Client User'', disabled = Some False,
      user_type = ''client'', hashed_password = pwd_hash ''secret''\<rparr>"

definition initial_state :: "(string \<Rightarrow> string) \<Rightarrow> string \<Rightarrow> state" where
  "initial_state pwd_hash key =
     \<lparr>SECRET_KEY = key,
      fake_users_db = [(''opsuser'', ops_record pwd_hash), (''clientuser'', client_record pwd_hash)],
      files_db = [],
      download_tokens_db = []\<rparr>"

text \<open>
  A stand-in for the password library in the worked examples: the digest is the
  plaintext behind a tag, and verification recomputes it.
\<close>

definition demo_hash :: "string \<Rightarrow> string" where
  "demo_hash plain = ''pbkdf2:'' @ plain"

definition demo_verify :: "string \<Rightarrow> string \<Rightarrow> bool" where
  "demo_verify plain digest = (digest = demo_hash plain)"

definition state0 :: state where
  "state0 = initial_state demo_hash ''key''"

text \<open>The tokens that \<open>login\<close> issues to the two accounts at instant 0.\<close>

definition ops_token :: bearer_token where
  "ops_token = Signed \<lparr>claim_sub = Some ''opsuser'', claim_user_type = Some ''ops'',
                       claim_exp = Some 1800\<rparr> ''key''"

definition client_token :: bearer_token where
  "client_token = Signed \<lparr>claim_sub = Some ''clientuser'', claim_user_type = Some ''client'',
                          claim_exp = Some 1800\<rparr> ''key''"

text \<open>After \<open>opsuser\<close> has uploaded \<open>Q3.xlsx\<close> at instant 10 under the file id \<open>X\<close>.\<close>

definition q3_info :: file_info where
  "q3_info = \<lparr>file_id = ''X'', filename = ''Q3.xlsx'', uploaded_by = ''opsuser'',
              upload_date = 10, file_path = ''uploaded_files/X''\<rparr>"

definition state1 :: state where
  "state1 = state0\<lparr>files_db := [(''X'', q3_info)]\<rparr>"

text \<open>After \<open>clientuser\<close> has asked for a download link to \<open>X\<close> at instant 20 and drawn \<open>G\<close>.\<close>

definition grant_G :: download_grant where
  "grant_G = \<lparr>grant_file_id = ''X'', grant_user_id = ''clientuser'', grant_expires = 1820\<rparr>"

definition state2 :: state where
  "state2 = state1\<lparr>download_tokens_db := [(''G'', grant_G)]\<rparr>"

text \<open>A grant table with an entry \<open>H\<close> whose file id \<open>Y\<close> is not in the registry.\<close>

definition state_dangling :: state where
  "state_dangling =
     state2\<lparr>download_tokens_db :=
              [(''G'', grant_G),
               (''H'', \<lparr>grant_file_id = ''Y'', grant_user_id = ''clientuser'',
                        grant_expires = 1820\<rparr>)]\<rparr>"

text \<open>The store after the role recorded for \<open>opsuser\<close> has been changed to \<open>client\<close>.\<close>

definition state_demoted :: state where
  "state_demoted =
     state1\<lparr>fake_users_db :=
              [(''opsuser'', (ops_record demo_hash)\<lparr>user_type := ''client''\<rparr>),
               (''clientuser'', client_record demo_hash)]\<rparr>"

text \<open>The store after the account \<open>clientuser\<close> has been disabled.\<close>

definition state_disabled :: state where
  "state_disabled =
     state1\<lparr>fake_users_db :=
              [(''opsuser'', ops_record demo_hash),
               (''clientuser'', (client_record demo_hash)\<lparr>disabled := Some True\<rparr>)]\<rparr>"

lemmas worked_defs =
  state0_def state1_def state2_def state_dangling_def state_demoted_def state_disabled_def
  initial_state_def ops_record_def client_record_def demo_hash_def demo_verify_def
  ops_token_def client_token_def q3_info_def grant_G_def

lemmas handler_defs =
  login_def authenticate_user_def verify_password_def create_access_token_def
  jwt_encode_def jwt_decode_def get_user_def get_current_user_def
  get_current_ops_user_def get_current_client_user_def credentials_exception_def
  upload_file_def list_files_def get_download_link_def download_file_def
  dict_get_def dict_contains_def dict_values_def
  ACCESS_TOKEN_EXPIRE_MINUTES_def FILE_STORAGE_def timedelta_minutes_def

lemmas splitext_defs =
  validate_file_type_def splitext_def rfind_def skip_leading_dots.simps
  lower_def lower_char_def allowed_extensions_def

section \<open>Dictionary lemmas\<close>

lemma map_of_dict_set: "map_of (dict_set d k v) = (map_of d)(k \<mapsto> v)"
  by (induction d) (auto simp: fun_eq_iff)

lemma dict_get_dict_set:
  "dict_get (dict_set d k v) k' = (if k' = k then Some v else dict_get d k')"
  by (simp add: dict_get_def map_of_dict_set)

lemma dict_contains_iff: "dict_contains d k \<longleftrightarrow> dict_get d k \<noteq> None"
  by (simp add: dict_contains_def dict_get_def split: option.splits)

lemma get_user_eq: "get_user db name = dict_get db name"
  by (simp add: get_user_def dict_contains_iff)

section \<open>Lemmas on \<open>rfind\<close> and \<open>splitext\<close>\<close>

text \<open>
  What \<open>splitext\<close> returns for a path whose last component is \<open>stem.x\<close>: the
  extension is \<open>.x\<close> when the stem has a character other than a dot, and empty when
  the stem is empty or all dots, or when the last component has no dot.
\<close>

lemma rfind_from_append:
  "rfind_from (xs @ ys) c i f = rfind_from ys c (i + int (length xs)) (rfind_from xs c i f)"
  by (induction xs arbitrary: i f) (simp_all add: add.assoc)

lemma rfind_from_absent: "c \<notin> set xs \<Longrightarrow> rfind_from xs c i f = f"
  by (induction xs arbitrary: i) auto

lemma rfind_last: "c \<notin> set ys \<Longrightarrow> rfind (xs @ c # ys) c = int (length xs)"
  by (simp add: rfind_def rfind_from_append rfind_from_absent)

lemma rfind_absent: "c \<notin> set p \<Longrightarrow> rfind p c = - 1"
  by (simp add: rfind_def rfind_from_absent)

lemma rfind_sep:
  assumes "pre = [] \<or> last pre = c" and "c \<notin> set rest"
  shows "rfind (pre @ rest) c = int (length pre) - 1"
proof (cases "pre = []")
  case True
  with assms show ?thesis by (simp add: rfind_absent)
next
  case False
  with assms have "pre = butlast pre @ [c]"
    by (metis append_butlast_last_id)
  then have "pre @ rest = butlast pre @ c # rest"
    by (metis append_Cons append_Nil append_assoc)
  then have "rfind (pre @ rest) c = rfind (butlast pre @ c # rest) c"
    by (rule arg_cong)
  also have "\<dots> = int (length (butlast pre))"
    using assms(2) by (rule rfind_last)
  also have "\<dots> = int (length pre) - 1"
    using False by (simp add: of_nat_diff Suc_leI)
  finally show ?thesis .
qed

lemma skip_leading_dots_all_dots:
  assumes "\<forall>k. i \<le> k \<and> k < d \<longrightarrow> nat k < length p \<and> p ! nat k = CHR ''.''" and "0 \<le> i"
  shows "skip_leading_dots p i d = None"
  using assms
proof (induction p i d rule: skip_leading_dots.induct)
  case (1 p i d)
  show ?case
  proof (cases "i < d")
    case True
    with 1 have "nat i < length p" "p ! nat i = CHR ''.''" by auto
    then have "take 1 (drop (nat i) p) = ''.''"
      by (simp add: take_Suc_conv_app_nth)
    with True 1 show ?thesis
      by (subst skip_leading_dots.simps) auto
  next
    case False
    then show ?thesis by (subst skip_leading_dots.simps) simp
  qed
qed

lemma skip_leading_dots_found:
  assumes "i \<le> k" "k < d" "nat k < length p" "p ! nat k \<noteq> CHR ''.''" "0 \<le> i"
  shows "skip_leading_dots p i d = Some (take (nat d) p, drop (nat d) p)"
  using assms
proof (induction p i d rule: skip_leading_dots.induct)
  case (1 p i d)
  have lt: "i < d" using 1 by simp
  show ?case
  proof (cases "take 1 (drop (nat i) p) \<noteq> ''.''")
    case True
    with lt show ?thesis by (subst skip_leading_dots.simps) simp
  next
    case False
    have "i \<noteq> k"
    proof
      assume "i = k"
      with 1 have "take 1 (drop (nat i) p) = [p ! nat k]"
        by (simp add: take_Suc_conv_app_nth)
      with False 1 show False by simp
    qed
    with 1 have "i + 1 \<le> k" by simp
    with 1 lt False have "skip_leading_dots p (i + 1) d = Some (take (nat d) p, drop (nat d) p)"
      by simp
    with lt False show ?thesis by (subst skip_leading_dots.simps) simp
  qed
qed

lemma splitext_shape:
  assumes pre: "pre = [] \<or> last pre = CHR ''/''"
    and stem: "CHR ''/'' \<notin> set stem"
    and x: "CHR ''/'' \<notin> set x" "CHR ''.'' \<notin> set x"
  shows "splitext (pre @ stem @ CHR ''.'' # x) =
           (if \<exists>c \<in> set stem. c \<noteq> CHR ''.''
            then (pre @ stem, CHR ''.'' # x)
            else (pre @ stem @ CHR ''.'' # x, []))"
proof -
  let ?p = "pre @ stem @ CHR ''.'' # x"
  have sep: "rfind ?p CHR ''/'' = int (length pre) - 1"
    using rfind_sep [OF pre, of "stem @ CHR ''.'' # x"] stem x by simp
  have dot: "rfind ?p CHR ''.'' = int (length pre + length stem)"
    using rfind_last [of "CHR ''.''" x "pre @ stem"] x by simp
  show ?thesis
  proof (cases "\<exists>c \<in> set stem. c \<noteq> CHR ''.''")
    case True
    then obtain j where j: "j < length stem" "stem ! j \<noteq> CHR ''.''"
      by (metis in_set_conv_nth)
    have "skip_leading_dots ?p (int (length pre)) (int (length pre + length stem)) =
        Some (take (nat (int (length pre + length stem))) ?p,
              drop (nat (int (length pre + length stem))) ?p)"
    proof (rule skip_leading_dots_found [where k = "int (length pre + j)"])
      have "nat (int (length pre + j)) = length pre + j"
        by (rule nat_int)
      then show "?p ! nat (int (length pre + j)) \<noteq> CHR ''.''"
        using j by (simp only: nth_append_length_plus) (simp add: nth_append)
    qed (use j in auto)
    with True sep dot show ?thesis
      by (simp add: splitext_def)
  next
    case False
    have "skip_leading_dots ?p (int (length pre)) (int (length pre + length stem)) = None"
    proof (rule skip_leading_dots_all_dots)
      show "\<forall>k. int (length pre) \<le> k \<and> k < int (length pre + length stem) \<longrightarrow>
          nat k < length ?p \<and> ?p ! nat k = CHR ''.''"
      proof (intro allI impI)
        fix k assume k: "int (length pre) \<le> k \<and> k < int (length pre + length stem)"
        then have "nat k - length pre < length stem" "length pre \<le> nat k" by auto
        with False show "nat k < length ?p \<and> ?p ! nat k = CHR ''.''"
          by (auto simp: nth_append)
      qed
    qed simp
    with False sep dot show ?thesis
      by (simp add: splitext_def)
  qed
qed

lemma splitext_no_dot:
  assumes pre: "pre = [] \<or> last pre = CHR ''/''"
    and base: "CHR ''/'' \<notin> set base" "CHR ''.'' \<notin> set base"
  shows "splitext (pre @ base) = (pre @ base, [])"
proof -
  have sep: "rfind (pre @ base) CHR ''/'' = int (length pre) - 1"
    using rfind_sep [OF pre] base by simp
  have dot: "rfind (pre @ base) CHR ''.'' \<le> int (length pre) - 1"
  proof (cases "CHR ''.'' \<in> set pre")
    case False
    with base have "rfind (pre @ base) CHR ''.'' = - 1"
      by (simp add: rfind_absent)
    then show ?thesis by simp
  next
    case True
    then obtain a b where ab: "pre = a @ CHR ''.'' # b" "CHR ''.'' \<notin> set b"
      by (metis split_list_last)
    then have "rfind (pre @ base) CHR ''.'' = int (length a)"
      using rfind_last [of "CHR ''.''" "b @ base" a] base by simp
    with ab show ?thesis by simp
  qed
  with sep show ?thesis
    by (simp add: splitext_def)
qed


lemma lower_dot: "lower (CHR ''.'' # x) = CHR ''.'' # lower x"
  by (simp add: lower_def lower_char_def)

section \<open>The scenario of the specification\<close>

text \<open>
  \<open>opsuser\<close> logs in and uploads \<open>Q3.xlsx\<close>; \<open>clientuser\<close> logs in, lists the files, asks
  for a download link and redeems it. The worked states above are the ones the
  handlers produce.
\<close>

lemma scenario_login:
  "login demo_verify state0 0 ''opsuser'' ''secret'' =
     Inr \<lparr>access_token = ops_token, token_type = ''bearer''\<rparr>"
  "login demo_verify state0 0 ''clientuser'' ''secret'' =
     Inr \<lparr>access_token = client_token, token_type = ''bearer''\<rparr>"
  by (simp_all add: worked_defs handler_defs)

lemma scenario_upload:
  "upload_file state0 10 ''X'' ops_token ''Q3.xlsx'' =
     Inr (\<lparr>upload_message = ''File uploaded successfully'', upload_file_id = ''X''\<rparr>, state1)"
  by (simp add: worked_defs handler_defs splitext_defs)

lemma scenario_list:
  "list_files state1 15 client_token = Inr [q3_info]"
  by (simp add: worked_defs handler_defs)

lemma scenario_grant:
  "get_download_link state1 20 ''G'' client_token ''X'' =
     Inr (\<lparr>download_link = ''/download-file/G'', link_message = ''success''\<rparr>, state2)"
  by (simp add: worked_defs handler_defs)

lemma scenario_redeem:
  "download_file state2 ''G'' =
     Inr (FileResponse ''uploaded_files/X'' ''Q3.xlsx'' ''application/octet-stream'', state2)"
  by (simp add: worked_defs handler_defs)

section \<open>File type validation: claim C8\<close>

lemma validate_file_type_cases:
  "validate_file_type fname =
     (if lower (snd (splitext fname)) \<in> {''.pptx'', ''.docx'', ''.xlsx''}
      then Inr ()
      else Inl (HTTPException 400 ''Only .pptx, .docx, .xlsx files are allowed''))"
  by (simp add: validate_file_type_def allowed_extensions_def)

lemma upload_file_cases:
  assumes "get_current_user s now token = Inr caller" and "user_type caller = ''ops''"
  shows "upload_file s now new_id token fname =
     (if lower (snd (splitext fname)) \<in> {''.pptx'', ''.docx'', ''.xlsx''}
      then Inr (\<lparr>upload_message = ''File uploaded successfully'', upload_file_id = new_id\<rparr>,
                s\<lparr>files_db := dict_set (files_db s) new_id
                     \<lparr>file_id = new_id, filename = fname, uploaded_by = username caller,
                      upload_date = now, file_path = ''uploaded_files/'' @ new_id\<rparr>\<rparr>)
      else Inl (HTTPException 400 ''Only .pptx, .docx, .xlsx files are allowed''))"
  using assms
  by (simp add: upload_file_def get_current_ops_user_def validate_file_type_cases
      FILE_STORAGE_def)

text \<open>
  C8. For every filename and every caller that the guard resolves to the \<open>ops\<close> role,
  \<open>upload_file\<close> is rejected with the 400 exception of \<open>validate_file_type\<close> exactly when
  the extension of the filename (the second component of \<open>os.path.splitext\<close>), lowered,
  is not one of \<open>.pptx\<close>, \<open>.docx\<close>, \<open>.xlsx\<close>; for those three it registers the file under
  the id just drawn and returns that id. For a filename whose last path component is
  \<open>stem.x\<close>, with a stem that is not made of dots only and no dot in \<open>x\<close>, that extension
  is \<open>.x\<close>, so the upload is accepted exactly when \<open>x\<close> lowered is \<open>pptx\<close>, \<open>docx\<close> or
  \<open>xlsx\<close>.
\<close>

theorem upload_file_extension:
  assumes "get_current_user s now token = Inr caller" and "user_type caller = ''ops''"
  shows "validate_file_type fname =
           (if lower (snd (splitext fname)) \<in> {''.pptx'', ''.docx'', ''.xlsx''}
            then Inr ()
            else Inl (HTTPException 400 ''Only .pptx, .docx, .xlsx files are allowed''))
       \<and> upload_file s now new_id token fname =
           (if lower (snd (splitext fname)) \<in> {''.pptx'', ''.docx'', ''.xlsx''}
            then Inr (\<lparr>upload_message = ''File uploaded successfully'',
                       upload_file_id = new_id\<rparr>,
                      s\<lparr>files_db := dict_set (files_db s) new_id
                           \<lparr>file_id = new_id, filename = fname,
                            uploaded_by = username caller, upload_date = now,
                            file_path = ''uploaded_files/'' @ new_id\<rparr>\<rparr>)
            else Inl (HTTPException 400 ''Only .pptx, .docx, .xlsx files are allowed''))
       \<and> (upload_file s now new_id token fname =
             Inl (HTTPException 400 ''Only .pptx, .docx, .xlsx files are allowed'')
           \<longleftrightarrow> lower (snd (splitext fname)) \<notin> {''.pptx'', ''.docx'', ''.xlsx''})
       \<and> ((\<exists>accepted. upload_file s now new_id token fname = Inr accepted)
           \<longleftrightarrow> lower (snd (splitext fname)) \<in> {''.pptx'', ''.docx'', ''.xlsx''})
       \<and> (\<forall>pre stem x.
             fname = pre @ stem @ CHR ''.'' # x
             \<and> (pre = [] \<or> last pre = CHR ''/'')
             \<and> CHR ''/'' \<notin> set stem \<and> (\<exists>c \<in> set stem. c \<noteq> CHR ''.'')
             \<and> CHR ''/'' \<notin> set x \<and> CHR ''.'' \<notin> set x
             \<longrightarrow> snd (splitext fname) = CHR ''.'' # x
               \<and> (validate_file_type fname = Inr ()
                    \<longleftrightarrow> lower x \<in> {''pptx'', ''docx'', ''xlsx''})
               \<and> ((\<exists>accepted. upload_file s now new_id token fname = Inr accepted)
                    \<longleftrightarrow> lower x \<in> {''pptx'', ''docx'', ''xlsx''}))"
proof -
  note up = upload_file_cases [OF assms, of new_id fname]
  have c1: "validate_file_type fname =
           (if lower (snd (splitext fname)) \<in> {''.pptx'', ''.docx'', ''.xlsx''}
            then Inr ()
            else Inl (HTTPException 400 ''Only .pptx, .docx, .xlsx files are allowed''))"
    by (rule validate_file_type_cases)
  have c3: "upload_file s now new_id token fname =
             Inl (HTTPException 400 ''Only .pptx, .docx, .xlsx files are allowed'')
           \<longleftrightarrow> lower (snd (splitext fname)) \<notin> {''.pptx'', ''.docx'', ''.xlsx''}"
    by (simp only: up split: if_split) simp
  have c4: "(\<exists>accepted. upload_file s now new_id token fname = Inr accepted)
           \<longleftrightarrow> lower (snd (splitext fname)) \<in> {''.pptx'', ''.docx'', ''.xlsx''}"
    by (simp only: up split: if_split) simp
  have c5: "\<forall>pre stem x.
             fname = pre @ stem @ CHR ''.'' # x
             \<and> (pre = [] \<or> last pre = CHR ''/'')
             \<and> CHR ''/'' \<notin> set stem \<and> (\<exists>c \<in> set stem. c \<noteq> CHR ''.'')
             \<and> CHR ''/'' \<notin> set x \<and> CHR ''.'' \<notin> set x
             \<longrightarrow> snd (splitext fname) = CHR ''.'' # x
               \<and> (validate_file_type fname = Inr ()
                    \<longleftrightarrow> lower x \<in> {''pptx'', ''docx'', ''xlsx''})
               \<and> ((\<exists>accepted. upload_file s now new_id token fname = Inr accepted)
                    \<longleftrightarrow> lower x \<in> {''pptx'', ''docx'', ''xlsx''})"
  proof (intro allI impI)
    fix pre stem x
    assume h: "fname = pre @ stem @ CHR ''.'' # x
         \<and> (pre = [] \<or> last pre = CHR ''/'')
         \<and> CHR ''/'' \<notin> set stem \<and> (\<exists>c \<in> set stem. c \<noteq> CHR ''.'')
         \<and> CHR ''/'' \<notin> set x \<and> CHR ''.'' \<notin> set x"
    then have "splitext fname = (pre @ stem, CHR ''.'' # x)"
      using splitext_shape [of pre stem x] by simp
    then have ext: "snd (splitext fname) = CHR ''.'' # x"
      by simp
    have low: "lower (snd (splitext fname)) \<in> {''.pptx'', ''.docx'', ''.xlsx''}
        \<longleftrightarrow> lower x \<in> {''pptx'', ''docx'', ''xlsx''}"
      by (simp add: ext lower_dot)
    have v: "validate_file_type fname = Inr () \<longleftrightarrow> lower x \<in> {''pptx'', ''docx'', ''xlsx''}"
      by (simp add: validate_file_type_def allowed_extensions_def ext lower_dot)
    from ext v c4 low
    show "snd (splitext fname) = CHR ''.'' # x
               \<and> (validate_file_type fname = Inr ()
                    \<longleftrightarrow> lower x \<in> {''pptx'', ''docx'', ''xlsx''})
               \<and> ((\<exists>accepted. upload_file s now new_id token fname = Inr accepted)
                    \<longleftrightarrow> lower x \<in> {''pptx'', ''docx'', ''xlsx''})"
      by simp
  qed
  from c1 up c3 c4 c5 show ?thesis
    by (intro conjI)
qed

theorem upload_file_extension_witness:
  "get_current_user state0 10 ops_token = Inr (ops_record demo_hash)
   \<and> user_type (ops_record demo_hash) = ''ops''
   \<and> snd (splitext ''Report.PPTX'') = ''.PPTX''
   \<and> lower ''PPTX'' = ''pptx''
   \<and> validate_file_type ''Report.PPTX'' = Inr ()
   \<and> upload_file state0 10 ''X'' ops_token ''Report.PPTX'' =
       Inr (\<lparr>upload_message = ''File uploaded successfully'', upload_file_id = ''X''\<rparr>,
            state0\<lparr>files_db := dict_set (files_db state0) ''X''
                     \<lparr>file_id = ''X'', filename = ''Report.PPTX'', uploaded_by = ''opsuser'',
                      upload_date = 10, file_path = ''uploaded_files/X''\<rparr>\<rparr>)
   \<and> lower (snd (splitext ''notes.txt'')) \<notin> {''.pptx'', ''.docx'', ''.xlsx''}
   \<and> upload_file state0 10 ''X'' ops_token ''notes.txt'' =
       Inl (HTTPException 400 ''Only .pptx, .docx, .xlsx files are allowed'')"
proof -
  have resolved: "get_current_user state0 10 ops_token = Inr (ops_record demo_hash)"
    by (simp add: worked_defs handler_defs)
  have role: "user_type (ops_record demo_hash) = ''ops''"
    and name: "username (ops_record demo_hash) = ''opsuser''"
    by (simp_all add: ops_record_def)
  have shape: "''Report.PPTX'' = [] @ ''Report'' @ CHR ''.'' # ''PPTX''
      \<and> ([] = [] \<or> last [] = CHR ''/'')
      \<and> CHR ''/'' \<notin> set ''Report'' \<and> (\<exists>c \<in> set ''Report''. c \<noteq> CHR ''.'')
      \<and> CHR ''/'' \<notin> set ''PPTX'' \<and> CHR ''.'' \<notin> set ''PPTX''"
    by simp
  have low: "lower ''PPTX'' = ''pptx''"
    by (simp add: lower_def lower_char_def)
  note good = upload_file_extension [OF resolved role, of "''Report.PPTX''" "''X''"]
  from good shape
  have ext: "snd (splitext ''Report.PPTX'') = CHR ''.'' # ''PPTX''"
    and ok: "validate_file_type ''Report.PPTX'' = Inr ()
        \<longleftrightarrow> lower ''PPTX'' \<in> {''pptx'', ''docx'', ''xlsx''}"
    by blast+
  from ok low have r1: "validate_file_type ''Report.PPTX'' = Inr ()"
    by simp
  have in3: "lower (snd (splitext ''Report.PPTX'')) \<in> {''.pptx'', ''.docx'', ''.xlsx''}"
    by (simp add: ext lower_dot low)
  from good in3 name
  have r2: "upload_file state0 10 ''X'' ops_token ''Report.PPTX'' =
       Inr (\<lparr>upload_message = ''File uploaded successfully'', upload_file_id = ''X''\<rparr>,
            state0\<lparr>files_db := dict_set (files_db state0) ''X''
                     \<lparr>file_id = ''X'', filename = ''Report.PPTX'', uploaded_by = ''opsuser'',
                      upload_date = 10, file_path = ''uploaded_files/X''\<rparr>\<rparr>)"
    by simp
  have out3: "lower (snd (splitext ''notes.txt'')) \<notin> {''.pptx'', ''.docx'', ''.xlsx''}"
    by (simp add: splitext_def rfind_def skip_leading_dots.simps lower_def lower_char_def)
  from upload_file_extension [OF resolved role, of "''notes.txt''" "''X''"] out3
  have r3: "upload_file state0 10 ''X'' ops_token ''notes.txt'' =
       Inl (HTTPException 400 ''Only .pptx, .docx, .xlsx files are allowed'')"
    by simp
  from resolved role ext low r1 r2 out3 r3 show ?thesis
    by simp
qed

section \<open>Download authorization: claims C6, C7, C9, C10, C1\<close>

text \<open>
  C6. \<open>download_file\<close> raises 404 when the token is not in \<open>download_tokens_db\<close>, raises
  404 when the token is present but the file id of its entry is not in \<open>files_db\<close>, and
  for a token that is present and unexpired it returns the \<open>file_path\<close> and the
  \<open>filename\<close> recorded in \<open>files_db\<close> under the file id of the token's entry.
\<close>

theorem download_file_lookup:
  "(dict_get (download_tokens_db s) tok = None \<longrightarrow>
      download_file s tok = Inl (HTTPException 404 ''Invalid download link''))
   \<and> (\<forall>g. dict_get (download_tokens_db s) tok = Some g
          \<and> dict_get (files_db s) (grant_file_id g) = None \<longrightarrow>
        download_file s tok = Inl (HTTPException 404 ''File not found''))
   \<and> (\<forall>g info. dict_get (download_tokens_db s) tok = Some g
          \<and> now \<le> grant_expires g
          \<and> dict_get (files_db s) (grant_file_id g) = Some info \<longrightarrow>
        download_file s tok =
          Inr (FileResponse (file_path info) (filename info) ''application/octet-stream'', s))"
  by (simp add: download_file_def)

theorem download_file_lookup_witness:
  "dict_get (download_tokens_db state_dangling) ''nope'' = None
   \<and> download_file state_dangling ''nope'' = Inl (HTTPException 404 ''Invalid download link'')
   \<and> dict_get (download_tokens_db state_dangling) ''H'' =
        Some \<lparr>grant_file_id = ''Y'', grant_user_id = ''clientuser'', grant_expires = 1820\<rparr>
   \<and> dict_get (files_db state_dangling) ''Y'' = None
   \<and> download_file state_dangling ''H'' = Inl (HTTPException 404 ''File not found'')
   \<and> dict_get (download_tokens_db state_dangling) ''G'' = Some grant_G
   \<and> (100::int) \<le> grant_expires grant_G
   \<and> dict_get (files_db state_dangling) (grant_file_id grant_G) = Some q3_info
   \<and> download_file state_dangling ''G'' =
        Inr (FileResponse ''uploaded_files/X'' ''Q3.xlsx'' ''application/octet-stream'',
             state_dangling)"
proof -
  have absent: "dict_get (download_tokens_db state_dangling) ''nope'' = None"
    by (simp add: worked_defs dict_get_def)
  have dangling: "dict_get (download_tokens_db state_dangling) ''H'' =
      Some \<lparr>grant_file_id = ''Y'', grant_user_id = ''clientuser'', grant_expires = 1820\<rparr>"
    "dict_get (files_db state_dangling) ''Y'' = None"
    by (simp_all add: worked_defs dict_get_def)
  have live: "dict_get (download_tokens_db state_dangling) ''G'' = Some grant_G"
    "(100::int) \<le> grant_expires grant_G"
    "dict_get (files_db state_dangling) (grant_file_id grant_G) = Some q3_info"
    by (simp_all add: worked_defs dict_get_def)
  have paths: "file_path q3_info = ''uploaded_files/X''" "filename q3_info = ''Q3.xlsx''"
    by (simp_all add: q3_info_def)
  from download_file_lookup [of state_dangling "''nope''" 100] absent
  have r1: "download_file state_dangling ''nope'' = Inl (HTTPException 404 ''Invalid download link'')"
    by blast
  from download_file_lookup [of state_dangling "''H''" 100] dangling
  have r2: "download_file state_dangling ''H'' = Inl (HTTPException 404 ''File not found'')"
    by simp
  from download_file_lookup [of state_dangling "''G''" 100] live
  have r3: "download_file state_dangling ''G'' =
      Inr (FileResponse (file_path q3_info) (filename q3_info) ''application/octet-stream'',
           state_dangling)"
    by blast
  from absent dangling live r1 r2 r3 paths show ?thesis by simp
qed

text \<open>
  C7. For a caller that \<open>get_current_user\<close> has resolved, \<open>get_download_link\<close> raises 403
  when the caller's role is not \<open>client\<close>; for a client caller it raises 404 when the
  file id is not in \<open>files_db\<close>, and otherwise returns the relative path
  \<open>/download-file/\<close> followed by the token just drawn, having stored under that token a
  grant for this file id and this caller that expires 30 minutes later.
\<close>

theorem get_download_link_guarded:
  assumes "get_current_user s now token = Inr caller"
  shows "(user_type caller \<noteq> ''client'' \<longrightarrow>
            get_download_link s now new_token token fid =
              Inl (HTTPException 403 ''Only client users can perform this action''))
       \<and> (user_type caller = ''client'' \<and> \<not> dict_contains (files_db s) fid \<longrightarrow>
            get_download_link s now new_token token fid =
              Inl (HTTPException 404 ''File not found''))
       \<and> (user_type caller = ''client'' \<and> dict_contains (files_db s) fid \<longrightarrow>
            (\<exists>s'. get_download_link s now new_token token fid =
                    Inr (\<lparr>download_link = ''/download-file/'' @ new_token,
                          link_message = ''success''\<rparr>, s')
                 \<and> dict_get (download_tokens_db s') new_token =
                     Some \<lparr>grant_file_id = fid, grant_user_id = username caller,
                           grant_expires = now + 30 * 60\<rparr>
                 \<and> files_db s' = files_db s
                 \<and> fake_users_db s' = fake_users_db s))"
  using assms
  by (simp add: get_download_link_def get_current_client_user_def dict_get_dict_set
      timedelta_minutes_def)

theorem get_download_link_guarded_witness:
  "get_current_user state1 20 ops_token = Inr (ops_record demo_hash)
   \<and> user_type (ops_record demo_hash) \<noteq> ''client''
   \<and> get_download_link state1 20 ''G'' ops_token ''X'' =
       Inl (HTTPException 403 ''Only client users can perform this action'')
   \<and> get_current_user state1 20 client_token = Inr (client_record demo_hash)
   \<and> user_type (client_record demo_hash) = ''client''
   \<and> \<not> dict_contains (files_db state1) ''Z''
   \<and> get_download_link state1 20 ''G'' client_token ''Z'' =
       Inl (HTTPException 404 ''File not found'')
   \<and> dict_contains (files_db state1) ''X''
   \<and> (\<exists>s'. get_download_link state1 20 ''G'' client_token ''X'' =
             Inr (\<lparr>download_link = ''/download-file/G'', link_message = ''success''\<rparr>, s')
          \<and> dict_get (download_tokens_db s') ''G'' = Some grant_G)"
proof -
  have ops: "get_current_user state1 20 ops_token = Inr (ops_record demo_hash)"
    by (simp add: worked_defs handler_defs)
  have client: "get_current_user state1 20 client_token = Inr (client_record demo_hash)"
    by (simp add: worked_defs handler_defs)
  have roles: "user_type (ops_record demo_hash) \<noteq> ''client''"
    "user_type (client_record demo_hash) = ''client''"
    "username (client_record demo_hash) = ''clientuser''"
    by (simp_all add: ops_record_def client_record_def)
  have files: "\<not> dict_contains (files_db state1) ''Z''" "dict_contains (files_db state1) ''X''"
    by (simp_all add: worked_defs dict_contains_def)
  from get_download_link_guarded [OF ops, where new_token = "''G''" and fid = "''X''"] roles
  have r1: "get_download_link state1 20 ''G'' ops_token ''X'' =
      Inl (HTTPException 403 ''Only client users can perform this action'')"
    by blast
  from get_download_link_guarded [OF client, where new_token = "''G''" and fid = "''Z''"] roles files
  have r2: "get_download_link state1 20 ''G'' client_token ''Z'' =
      Inl (HTTPException 404 ''File not found'')"
    by blast
  from get_download_link_guarded [OF client, where new_token = "''G''" and fid = "''X''"] roles files
  have r3: "\<exists>s'. get_download_link state1 20 ''G'' client_token ''X'' =
             Inr (\<lparr>download_link = ''/download-file/G'', link_message = ''success''\<rparr>, s')
          \<and> dict_get (download_tokens_db s') ''G'' = Some grant_G"
    by (auto simp: grant_G_def)
  from ops client roles files r1 r2 r3 show ?thesis by blast
qed

text \<open>
  C9. When the token is in \<open>download_tokens_db\<close> and the file id of its entry is in
  \<open>files_db\<close>, \<open>download_file\<close> succeeds and returns the state it was given, so the same
  token is redeemed again with the same response; and the response is the same whatever
  identity the entry records as \<open>user_id\<close>: the handler takes no caller and never reads
  that field.
\<close>

theorem download_file_frame:
  assumes "dict_get (download_tokens_db s) tok = Some g"
    and "dict_get (files_db s) (grant_file_id g) = Some info"
  shows "\<exists>resp s'. download_file s tok = Inr (resp, s')
           \<and> s' = s
           \<and> download_file s' tok = Inr (resp, s')
           \<and> (\<forall>presenter.
                 map_sum id fst
                   (download_file
                      (s\<lparr>download_tokens_db :=
                           dict_set (download_tokens_db s) tok
                             (g\<lparr>grant_user_id := presenter\<rparr>)\<rparr>) tok) = Inr resp)"
  using assms by (simp add: download_file_def dict_get_dict_set)

theorem download_file_frame_witness:
  "dict_get (download_tokens_db state2) ''G'' = Some grant_G
   \<and> dict_get (files_db state2) (grant_file_id grant_G) = Some q3_info
   \<and> (\<exists>resp. download_file state2 ''G'' = Inr (resp, state2)
         \<and> map_sum id fst
             (download_file
                (state2\<lparr>download_tokens_db :=
                          dict_set (download_tokens_db state2) ''G''
                            (grant_G\<lparr>grant_user_id := ''opsuser''\<rparr>)\<rparr>) ''G'') = Inr resp)"
proof -
  have present: "dict_get (download_tokens_db state2) ''G'' = Some grant_G"
    by (simp add: worked_defs dict_get_def)
  have registered: "dict_get (files_db state2) (grant_file_id grant_G) = Some q3_info"
    by (simp add: worked_defs dict_get_def)
  from download_file_frame [OF present registered] present registered show ?thesis
    by blast
qed

text \<open>
  C10. \<open>list_files\<close> is gated to the client role: a caller that \<open>get_current_user\<close>
  resolves to the \<open>ops\<close> role gets the 403 exception, and the file records (the values of
  \<open>files_db\<close> in insertion order) are returned exactly to the callers resolved to the
  \<open>client\<close> role.
\<close>

theorem list_files_client_only:
  "(\<forall>u. get_current_user s now token = Inr u \<and> user_type u = ''ops'' \<longrightarrow>
       list_files s now token =
         Inl (HTTPException 403 ''Only client users can perform this action''))
   \<and> ((\<exists>fs. list_files s now token = Inr fs) \<longleftrightarrow>
        (\<exists>u. get_current_user s now token = Inr u \<and> user_type u = ''client''))
   \<and> (\<forall>fs. list_files s now token = Inr fs \<longrightarrow> fs = dict_values (files_db s))"
  by (auto simp: list_files_def get_current_client_user_def split: sum.splits)

theorem list_files_client_only_witness:
  "get_current_user state1 15 ops_token = Inr (ops_record demo_hash)
   \<and> user_type (ops_record demo_hash) = ''ops''
   \<and> list_files state1 15 ops_token =
       Inl (HTTPException 403 ''Only client users can perform this action'')
   \<and> get_current_user state1 15 client_token = Inr (client_record demo_hash)
   \<and> user_type (client_record demo_hash) = ''client''
   \<and> list_files state1 15 client_token = Inr [q3_info]"
proof -
  have ops: "get_current_user state1 15 ops_token = Inr (ops_record demo_hash)"
    "user_type (ops_record demo_hash) = ''ops''"
    by (simp_all add: worked_defs handler_defs)
  have client: "get_current_user state1 15 client_token = Inr (client_record demo_hash)"
    "user_type (client_record demo_hash) = ''client''"
    by (simp_all add: worked_defs handler_defs)
  have vals: "dict_values (files_db state1) = [q3_info]"
    by (simp add: worked_defs dict_values_def)
  from list_files_client_only [of state1 15 ops_token] ops
  have r1: "list_files state1 15 ops_token =
      Inl (HTTPException 403 ''Only client users can perform this action'')"
    by blast
  from list_files_client_only [of state1 15 client_token] client
  obtain fs where fs: "list_files state1 15 client_token = Inr fs"
    by blast
  with list_files_client_only [of state1 15 client_token] vals
  have r2: "list_files state1 15 client_token = Inr [q3_info]"
    by simp
  from ops client r1 r2 show ?thesis by simp
qed

text \<open>
  C1 (the code at an expired grant). The grant \<open>G\<close> of \<open>state2\<close> expires at instant 1820.
  \<open>download_file\<close> does not read the clock and never compares it with the
  \<open>expires\<close> entry that \<open>get_download_link\<close> stored: at any later instant, here 5000, the
  redemption still returns the file.
\<close>

theorem download_file_after_expiry:
  "dict_get (download_tokens_db state2) ''G'' = Some grant_G
   \<and> grant_expires grant_G = 1820
   \<and> (5000::int) > grant_expires grant_G
   \<and> download_file state2 ''G'' =
       Inr (FileResponse ''uploaded_files/X'' ''Q3.xlsx'' ''application/octet-stream'', state2)"
  by (simp add: worked_defs handler_defs)

section \<open>Access guard: claims C2, C3\<close>

text \<open>
  C2 (counterexample). The token that \<open>login\<close> issued to \<open>opsuser\<close> carries the role
  \<open>ops\<close>. Once the store records the role \<open>client\<close> for \<open>opsuser\<close>, the guard resolves that
  token, still signed and unexpired, to the role \<open>client\<close> of the store, and the ops gate
  rejects it with 403: the role embedded in the token is not the one the guard uses.
\<close>

theorem guard_uses_token_role_counterexample:
  "jwt_decode 100 ops_token (SECRET_KEY state_demoted) =
     Inr \<lparr>claim_sub = Some ''opsuser'', claim_user_type = Some ''ops'', claim_exp = Some 1800\<rparr>
   \<and> map_sum id user_type (get_current_user state_demoted 100 ops_token) = Inr ''client''
   \<and> get_current_ops_user state_demoted 100 ops_token =
       Inl (HTTPException 403 ''Only operation users can perform this action'')"
  by (simp add: worked_defs handler_defs)

text \<open>
  C2 (amended). For every bearer token with a valid signature and unexpired claims that
  carry a subject and a role, and whose subject is in the Credential Store, the guard
  resolves the caller to the record that the store holds for the subject. The role the
  gates compare is the role of that record; the role embedded in the token has to be
  present, and its value is not used.
\<close>

theorem guard_resolves_store_record:
  assumes "jwt_decode now token (SECRET_KEY s) = Inr payload"
    and "claim_sub payload = Some name"
    and "claim_user_type payload = Some token_role"
    and "get_user (fake_users_db s) name = Some user"
  shows "get_current_user s now token = Inr user
       \<and> get_current_ops_user s now token =
           (if user_type user \<noteq> ''ops''
            then Inl (HTTPException 403 ''Only operation users can perform this action'')
            else Inr user)
       \<and> get_current_client_user s now token =
           (if user_type user \<noteq> ''client''
            then Inl (HTTPException 403 ''Only client users can perform this action'')
            else Inr user)"
  using assms
  by (simp add: get_current_user_def get_current_ops_user_def get_current_client_user_def)

theorem guard_resolves_store_record_witness:
  "jwt_decode 100 ops_token (SECRET_KEY state_demoted) =
     Inr \<lparr>claim_sub = Some ''opsuser'', claim_user_type = Some ''ops'', claim_exp = Some 1800\<rparr>
   \<and> get_user (fake_users_db state_demoted) ''opsuser'' =
       Some ((ops_record demo_hash)\<lparr>user_type := ''client''\<rparr>)
   \<and> get_current_user state_demoted 100 ops_token =
       Inr ((ops_record demo_hash)\<lparr>user_type := ''client''\<rparr>)
   \<and> get_current_client_user state_demoted 100 ops_token =
       Inr ((ops_record demo_hash)\<lparr>user_type := ''client''\<rparr>)"
proof -
  let ?payload = "\<lparr>claim_sub = Some ''opsuser'', claim_user_type = Some ''ops'',
                   claim_exp = Some (1800::int)\<rparr>"
  have dec: "jwt_decode 100 ops_token (SECRET_KEY state_demoted) = Inr ?payload"
    by (simp add: worked_defs handler_defs)
  have sub: "claim_sub ?payload = Some ''opsuser''"
    and role: "claim_user_type ?payload = Some ''ops''"
    by simp_all
  have stored: "get_user (fake_users_db state_demoted) ''opsuser'' =
      Some ((ops_record demo_hash)\<lparr>user_type := ''client''\<rparr>)"
    by (simp add: worked_defs handler_defs)
  from guard_resolves_store_record [OF dec sub role stored] dec stored show ?thesis
    by (simp add: ops_record_def)
qed

text \<open>
  C3 (the code at a disabled account). In \<open>state_disabled\<close> the record of \<open>clientuser\<close>
  has \<open>disabled = True\<close>. \<open>get_current_user\<close> looks the subject up and checks only that
  a record exists; it never reads the \<open>disabled\<close> field, so the token of the disabled
  account is accepted and the client routes serve it.
\<close>

theorem guard_accepts_disabled_account:
  "map_option disabled (get_user (fake_users_db state_disabled) ''clientuser'') = Some (Some True)
   \<and> jwt_decode 100 client_token (SECRET_KEY state_disabled) =
       Inr \<lparr>claim_sub = Some ''clientuser'', claim_user_type = Some ''client'',
            claim_exp = Some 1800\<rparr>
   \<and> get_current_user state_disabled 100 client_token =
       Inr ((client_record demo_hash)\<lparr>disabled := Some True\<rparr>)
   \<and> list_files state_disabled 100 client_token = Inr [q3_info]"
  by (simp add: worked_defs handler_defs)

section \<open>Token lifetime and the login round trip: claims C4, C5\<close>

text \<open>
  C4. Every token that \<open>login\<close> returns carries the expiry \<open>now + 30 minutes\<close>, fixed when
  the token is made. Verified at the expiry instant or later, the token is rejected as
  expired and \<open>get_current_user\<close> raises the 401 exception; verified at any earlier
  instant, in particular one second before the expiry, it passes the signature and
  expiry checks.
\<close>

theorem login_token_expiry:
  assumes "login pwd_verify s now name password = Inr resp"
  shows "\<exists>payload.
           access_token resp = Signed payload (SECRET_KEY s)
         \<and> claim_exp payload = Some (now + 30 * 60)
         \<and> (\<forall>t. t \<ge> now + 30 * 60 \<longrightarrow>
               jwt_decode t (access_token resp) (SECRET_KEY s) = Inl Expired
             \<and> get_current_user s t (access_token resp) =
                 Inl (HTTPException 401 ''Could not validate credentials''))
         \<and> (\<forall>t. t < now + 30 * 60 \<longrightarrow>
               jwt_decode t (access_token resp) (SECRET_KEY s) = Inr payload)
         \<and> jwt_decode (now + 30 * 60 - 1) (access_token resp) (SECRET_KEY s) = Inr payload"
  using assms
  by (auto simp: login_def create_access_token_def jwt_encode_def jwt_decode_def
      get_current_user_def credentials_exception_def ACCESS_TOKEN_EXPIRE_MINUTES_def
      timedelta_minutes_def Let_def split: option.splits)

theorem login_token_expiry_witness:
  "login demo_verify state0 0 ''opsuser'' ''secret'' =
     Inr \<lparr>access_token = ops_token, token_type = ''bearer''\<rparr>
   \<and> get_current_user state0 1800 ops_token =
       Inl (HTTPException 401 ''Could not validate credentials'')
   \<and> (\<exists>payload. jwt_decode 1799 ops_token ''key'' = Inr payload
         \<and> claim_exp payload = Some 1800)"
proof -
  have issued: "login demo_verify state0 0 ''opsuser'' ''secret'' =
      Inr \<lparr>access_token = ops_token, token_type = ''bearer''\<rparr>"
    by (simp add: worked_defs handler_defs)
  have key: "SECRET_KEY state0 = ''key''"
    by (simp add: worked_defs)
  from login_token_expiry [OF issued] key issued show ?thesis
    by auto
qed

text \<open>
  C5. For every account of the Credential Store, stored under its own username, and
  every password that verifies against the stored hash, \<open>login\<close> returns a token, and
  \<open>get_current_user\<close> on that token at any instant before its expiry, with the state
  unchanged, resolves to the stored record of that account: that username and the role
  the store records for it.
\<close>

theorem login_then_guard:
  assumes "get_user (fake_users_db s) name = Some user"
    and "username user = name"
    and "pwd_verify password (hashed_password user)"
    and "t < now + 30 * 60"
  shows "\<exists>resp. login pwd_verify s now name password = Inr resp
           \<and> get_current_user s t (access_token resp) = Inr user
           \<and> map_sum id username (get_current_user s t (access_token resp)) = Inr name
           \<and> map_sum id user_type (get_current_user s t (access_token resp)) =
               Inr (user_type user)"
  using assms
  by (auto simp: login_def authenticate_user_def verify_password_def create_access_token_def
      jwt_encode_def jwt_decode_def get_current_user_def ACCESS_TOKEN_EXPIRE_MINUTES_def
      timedelta_minutes_def Let_def)

theorem login_then_guard_witness:
  "get_user (fake_users_db state0) ''clientuser'' = Some (client_record demo_hash)
   \<and> username (client_record demo_hash) = ''clientuser''
   \<and> demo_verify ''secret'' (hashed_password (client_record demo_hash))
   \<and> (1799::int) < 0 + 30 * 60
   \<and> (\<exists>resp. login demo_verify state0 0 ''clientuser'' ''secret'' = Inr resp
         \<and> get_current_user state0 1799 (access_token resp) = Inr (client_record demo_hash)
         \<and> user_type (client_record demo_hash) = ''client'')"
proof -
  have stored: "get_user (fake_users_db state0) ''clientuser'' = Some (client_record demo_hash)"
    by (simp add: worked_defs handler_defs)
  have own: "username (client_record demo_hash) = ''clientuser''"
    and role: "user_type (client_record demo_hash) = ''client''"
    by (simp_all add: client_record_def)
  have pw: "demo_verify ''secret'' (hashed_password (client_record demo_hash))"
    by (simp add: worked_defs)
  have early: "(1799::int) < 0 + 30 * 60"
    by simp
  from login_then_guard [where pwd_verify = demo_verify and password = "''secret''",
      OF stored own pw early] stored own role pw
  show ?thesis
    by auto
qed

end
